theory Spec2Isabelle
  imports Main
begin

section \<open>Python values and effects\<close>

text \<open>
  A raised Python object. Every raised object is an instance of \<^verbatim>\<open>BaseException\<close>;
  \<open>is_Exception e\<close> is \<^verbatim>\<open>isinstance(e, Exception)\<close>, which is what a clause
  \<^verbatim>\<open>except Exception\<close> tests, and \<open>message e\<close> is \<^verbatim>\<open>str(e)\<close>.
\<close>

datatype py_exc = PyExc (is_Exception: bool) (message: string)

text \<open>
  What a run does to the outside world, in the order it does it: the calls to the operating
  system and to the tokenizer library, and the text written to the two streams.
\<close>

datatype event =
    Call_isfile string
  | Call_open string
  | Call_encoding_for_model string
  | Call_encode string
  | Stdout string
  | Stderr string

type_synonym trace = "event list"

fun is_stdout :: "event \<Rightarrow> bool" where
  "is_stdout (Stdout s) = True"
| "is_stdout ev = False"

fun is_stderr :: "event \<Rightarrow> bool" where
  "is_stderr (Stderr s) = True"
| "is_stderr ev = False"

fun is_tokenizer_call :: "event \<Rightarrow> bool" where
  "is_tokenizer_call (Call_encoding_for_model m) = True"
| "is_tokenizer_call (Call_encode t) = True"
| "is_tokenizer_call ev = False"

fun is_open :: "event \<Rightarrow> bool" where
  "is_open (Call_open p) = True"
| "is_open ev = False"

definition stdout_of :: "trace \<Rightarrow> trace" where
  "stdout_of tr = filter is_stdout tr"

definition stderr_of :: "trace \<Rightarrow> trace" where
  "stderr_of tr = filter is_stderr tr"

definition tokenizer_calls :: "trace \<Rightarrow> trace" where
  "tokenizer_calls tr = filter is_tokenizer_call tr"

definition file_reads :: "trace \<Rightarrow> trace" where
  "file_reads tr = filter is_open tr"

text \<open>How a process ends: \<^verbatim>\<open>sys.exit(n)\<close>, or an exception nobody caught.\<close>

datatype outcome = Exit int | Uncaught py_exc

subsection \<open>\<^verbatim>\<open>print\<close> and \<^verbatim>\<open>str\<close> of an integer\<close>

definition digit_char :: "nat \<Rightarrow> char" where
  "digit_char d = ''0123456789'' ! d"

function str_nat :: "nat \<Rightarrow> string" where
  "str_nat n = (if n < 10 then [digit_char n]
                else str_nat (n div 10) @ [digit_char (n mod 10)])"
  by pat_completeness auto
termination
  by (relation "measure (\<lambda>n. n)") auto

declare str_nat.simps [simp del]

definition str_int :: "int \<Rightarrow> string" where
  "str_int i = (if i < 0 then CHR ''-'' # str_nat (nat (- i)) else str_nat (nat i))"

text \<open>\<^verbatim>\<open>print(s, file=...)\<close> writes the text and a newline.\<close>

definition print_line :: "string \<Rightarrow> string" where
  "print_line s = s @ [CHR 0x0A]"

subsection \<open>The external collaborators\<close>

text \<open>
  The tokenizer library is not part of the repository: it is a parameter.
  \<^verbatim>\<open>tiktoken.encoding_for_model(model)\<close> raises or returns an encoder, and the
  encoder's \<^verbatim>\<open>encode(text)\<close> raises or returns a list of token identifiers.
\<close>

type_synonym encoding = "string \<Rightarrow> py_exc + int list"
type_synonym tiktoken = "string \<Rightarrow> py_exc + encoding"

text \<open>
  The file system is a parameter too. A regular file carries the outcome of
  \<^verbatim>\<open>open(path, 'r', encoding='utf-8')\<close> followed by \<^verbatim>\<open>f.read()\<close>: the decoded
  text, or the exception raised (permissions, invalid UTF-8, I/O).
\<close>

datatype fs_node = RegularFile "py_exc + string" | Directory

type_synonym filesystem = "string \<Rightarrow> fs_node option"

text \<open>\<^verbatim>\<open>os.path.isfile\<close>: true for an existing regular file only; it never raises.\<close>

definition isfile :: "filesystem \<Rightarrow> string \<Rightarrow> bool" where
  "isfile fs path = (case fs path of Some (RegularFile r) \<Rightarrow> True | _ \<Rightarrow> False)"

definition read_utf8 :: "filesystem \<Rightarrow> string \<Rightarrow> py_exc + string" where
  "read_utf8 fs path =
     (case fs path of
        Some (RegularFile r) \<Rightarrow> r
      | Some Directory \<Rightarrow> Inl (PyExc True ''[Errno 21] Is a directory'')
      | None \<Rightarrow> Inl (PyExc True ''[Errno 2] No such file or directory''))"

section \<open>The greeting tool (\<^verbatim>\<open>custom/hello_world.py\<close>)\<close>

text \<open>
  The function takes no parameter. Like every operation here it is given the trace so far
  and returns the trace after it, next to its result or the exception it raised.
\<close>

definition hello :: "trace \<Rightarrow> (py_exc + string) \<times> trace" where
  "hello tr = (Inr ''Hello, world!'', tr)"

section \<open>The token counter (\<^verbatim>\<open>TokenCounter/test_tiktoken.py\<close>)\<close>

text \<open>
  The handler of \<^verbatim>\<open>count_tokens\<close> (lines 14 to 16): \<^verbatim>\<open>except Exception as e\<close>
  takes the instances of \<^verbatim>\<open>Exception\<close>, prints to the error stream and returns \<open>-1\<close>;
  any other raised object goes on to the caller.
\<close>

definition count_tokens_except :: "py_exc \<Rightarrow> trace \<Rightarrow> (py_exc + int) \<times> trace" where
  "count_tokens_except e tr =
     (if is_Exception e
      then (Inr (- 1), tr @ [Stderr (print_line (''Error: '' @ message e))])
      else (Inl e, tr))"

definition count_tokens :: "tiktoken \<Rightarrow> string \<Rightarrow> string \<Rightarrow> trace \<Rightarrow> (py_exc + int) \<times> trace" where
  "count_tokens tk text model tr =
     (let tr1 = tr @ [Call_encoding_for_model model] in
      case tk model of
        Inl e \<Rightarrow> count_tokens_except e tr1
      | Inr enc \<Rightarrow>
          (let tr2 = tr1 @ [Call_encode text] in
           case enc text of
             Inl e \<Rightarrow> count_tokens_except e tr2
           | Inr tokens \<Rightarrow> (Inr (int (length tokens)), tr2)))"

text \<open>The call with the second argument left out: \<^verbatim>\<open>model='gpt-4'\<close>.\<close>

definition count_tokens_default :: "tiktoken \<Rightarrow> string \<Rightarrow> trace \<Rightarrow> (py_exc + int) \<times> trace" where
  "count_tokens_default tk text tr = count_tokens tk text ''gpt-4'' tr"

text \<open>
  Lines 20 to 33: the input text. \<open>argv\<close> is \<^verbatim>\<open>sys.argv\<close>, the script's name first.
  The result is the text, or the way the script ended before it had one.
\<close>

definition resolve_text :: "filesystem \<Rightarrow> string list \<Rightarrow> trace \<Rightarrow> (outcome + string) \<times> trace" where
  "resolve_text fs argv tr =
     (if length argv > 1 then
        (let text_input = argv ! 1;
             tr1 = tr @ [Call_isfile text_input] in
         if isfile fs text_input then
           (let tr2 = tr1 @ [Call_open text_input] in
            case read_utf8 fs text_input of
              Inr text \<Rightarrow> (Inr text, tr2)
            | Inl e \<Rightarrow>
                if is_Exception e
                then (Inl (Exit 1),
                      tr2 @ [Stderr (print_line (''Error reading file: '' @ message e))])
                else (Inl (Uncaught e), tr2))
         else (Inr text_input, tr1))
      else (Inr ''Hello, World!'', tr))"

text \<open>Line 35: the model identifier.\<close>

definition resolve_model :: "string list \<Rightarrow> string" where
  "resolve_model argv = (if length argv > 2 then argv ! 2 else ''gpt-4'')"

text \<open>Lines 39 to 43: from the count to the exit status.\<close>

definition report :: "int \<Rightarrow> trace \<Rightarrow> outcome \<times> trace" where
  "report token_count tr =
     (if token_count \<ge> 0
      then (Exit 0, tr @ [Stdout (print_line (str_int token_count))])
      else (Exit 1, tr))"

text \<open>Lines 37 to 43: count, then report.\<close>

definition count_and_report :: "tiktoken \<Rightarrow> string \<Rightarrow> string \<Rightarrow> trace \<Rightarrow> outcome \<times> trace" where
  "count_and_report tk text model tr =
     (case count_tokens tk text model tr of
        (Inl e, tr') \<Rightarrow> (Uncaught e, tr')
      | (Inr token_count, tr') \<Rightarrow> report token_count tr')"

text \<open>The script, started with an empty trace.\<close>

definition main :: "tiktoken \<Rightarrow> filesystem \<Rightarrow> string list \<Rightarrow> outcome \<times> trace" where
  "main tk fs argv =
     (case resolve_text fs argv [] of
        (Inl ended, tr) \<Rightarrow> (ended, tr)
      | (Inr text, tr) \<Rightarrow> count_and_report tk text (resolve_model argv) tr)"

subsection \<open>Concrete collaborators for the examples\<close>

text \<open>A tokenizer that knows one model and makes one token of every character.\<close>

definition char_encoding :: encoding where
  "char_encoding text = Inr (map (\<lambda>c. int (of_char c)) text)"

definition demo_tiktoken :: tiktoken where
  "demo_tiktoken model =
     (if model = ''gpt-4'' then Inr char_encoding
      else Inl (PyExc True ''Could not automatically map model to a tokeniser''))"

text \<open>A tokenizer whose native code panics: the raised object is no \<^verbatim>\<open>Exception\<close>.\<close>

definition panicking_tiktoken :: tiktoken where
  "panicking_tiktoken model = Inl (PyExc False ''PanicException'')"

definition demo_fs :: filesystem where
  "demo_fs path =
     (if path = ''/tmp'' then Some Directory
      else if path = ''notes.txt'' then Some (RegularFile (Inr ''hello''))
      else if path = ''secret.txt''
        then Some (RegularFile (Inl (PyExc True ''[Errno 13] Permission denied'')))
      else None)"

section \<open>Facts about the trace\<close>

lemma str_int_0: "str_int 0 = ''0''"
  by (simp add: str_int_def str_nat.simps digit_char_def)

lemma str_int_4: "str_int 4 = ''4''"
  by (simp add: str_int_def str_nat.simps digit_char_def)

lemma str_int_5: "str_int 5 = ''5''"
  by (simp add: str_int_def str_nat.simps digit_char_def)

lemma str_int_13: "str_int 13 = ''13''"
  by (simp add: str_int_def str_nat.simps digit_char_def)

lemma count_tokens_stdout:
  "stdout_of (snd (count_tokens tk text model tr)) = stdout_of tr"
  by (simp add: count_tokens_def count_tokens_except_def stdout_of_def Let_def
      split: sum.split)

lemma resolve_text_stdout:
  "stdout_of (snd (resolve_text fs argv tr)) = stdout_of tr"
  by (simp add: resolve_text_def stdout_of_def Let_def split: sum.split)

lemma count_tokens_file_reads:
  "file_reads (snd (count_tokens tk text model tr)) = file_reads tr"
  by (simp add: count_tokens_def count_tokens_except_def file_reads_def Let_def
      split: sum.split)

lemma report_file_reads: "file_reads (snd (report n tr)) = file_reads tr"
  by (simp add: report_def file_reads_def)

lemma count_and_report_file_reads:
  "file_reads (snd (count_and_report tk text model tr)) = file_reads tr"
proof (cases "count_tokens tk text model tr")
  case (Pair r tr')
  then have "file_reads tr' = file_reads tr"
    using count_tokens_file_reads [of tk "text" model tr] by simp
  with Pair show ?thesis
    by (cases r) (simp_all add: count_and_report_def report_file_reads)
qed

lemma resolve_text_read_failure:
  assumes "length argv > 1" and "isfile fs (argv ! 1)"
    and "read_utf8 fs (argv ! 1) = Inl e" and "is_Exception e"
  shows "resolve_text fs argv tr =
           (Inl (Exit 1), tr @ [Call_isfile (argv ! 1), Call_open (argv ! 1),
              Stderr (print_line (''Error reading file: '' @ message e))])"
  using assms by (simp add: resolve_text_def Let_def)

lemma resolve_text_not_file:
  assumes "length argv > 1" and "\<not> isfile fs (argv ! 1)"
  shows "resolve_text fs argv tr = (Inr (argv ! 1), tr @ [Call_isfile (argv ! 1)])"
  using assms by (simp add: resolve_text_def Let_def)

lemma resolve_text_take: "resolve_text fs (take 3 argv) tr = resolve_text fs argv tr"
  by (simp add: resolve_text_def)

lemma resolve_model_take: "resolve_model (take 3 argv) = resolve_model argv"
  by (simp add: resolve_model_def)

lemma demo_missing_text:
  "resolve_text demo_fs [''test_tiktoken.py'', ''missing.txt'', ''not-a-real-model''] [] =
     (Inr ''missing.txt'', [Call_isfile ''missing.txt''])"
  by (simp add: resolve_text_def isfile_def demo_fs_def Let_def)

lemma demo_unknown_model_count:
  "count_tokens demo_tiktoken ''missing.txt''
     (resolve_model [''test_tiktoken.py'', ''missing.txt'', ''not-a-real-model''])
     [Call_isfile ''missing.txt''] =
   (Inr (- 1), [Call_isfile ''missing.txt'', Call_encoding_for_model ''not-a-real-model'',
      Stderr (print_line ''Error: Could not automatically map model to a tokeniser'')])"
  by (simp add: count_tokens_def count_tokens_except_def resolve_model_def demo_tiktoken_def)

section \<open>The command line of the token counter: exit status\<close>

text \<open>
  C1. Once the script has its input text, the count decides how it ends. When
  \<open>count_tokens\<close> returns a count that is not negative, the script prints that integer,
  the only thing it writes to standard output, and exits with status 0. When
  \<open>count_tokens\<close> returns \<open>-1\<close>, the script exits with status 1 and has written nothing
  to standard output.
\<close>

theorem main_exit_status_by_count:
  assumes "resolve_text fs argv [] = (Inr text, tr)"
    and "count_tokens tk text (resolve_model argv) tr = (Inr token_count, tr')"
  shows "(0 \<le> token_count \<longrightarrow>
           main tk fs argv = (Exit 0, tr' @ [Stdout (print_line (str_int token_count))]) \<and>
           stdout_of (snd (main tk fs argv)) = [Stdout (print_line (str_int token_count))]) \<and>
         (token_count = - 1 \<longrightarrow>
           main tk fs argv = (Exit 1, tr') \<and> stdout_of (snd (main tk fs argv)) = [])"
proof -
  have r: "stdout_of tr = []"
    using resolve_text_stdout [of fs argv "[]"] assms(1) by (simp add: stdout_of_def)
  have c: "stdout_of tr' = []"
    using count_tokens_stdout [of tk "text" "resolve_model argv" tr] assms(2) r by simp
  have m: "main tk fs argv = report token_count tr'"
    using assms by (simp add: main_def count_and_report_def)
  show ?thesis
    using m c by (simp add: report_def stdout_of_def)
qed

theorem main_exit_status_by_count_witness:
  "main demo_tiktoken demo_fs [''test_tiktoken.py''] =
     (Exit 0, [Call_encoding_for_model ''gpt-4'', Call_encode ''Hello, World!'',
               Stdout (print_line ''13'')]) \<and>
   main demo_tiktoken demo_fs [''test_tiktoken.py'', ''missing.txt'', ''not-a-real-model''] =
     (Exit 1, [Call_isfile ''missing.txt'', Call_encoding_for_model ''not-a-real-model'',
               Stderr (print_line ''Error: Could not automatically map model to a tokeniser'')])"
proof -
  have r1: "resolve_text demo_fs [''test_tiktoken.py''] [] = (Inr ''Hello, World!'', [])"
    by (simp add: resolve_text_def)
  have c1: "count_tokens demo_tiktoken ''Hello, World!'' (resolve_model [''test_tiktoken.py'']) []
            = (Inr 13, [Call_encoding_for_model ''gpt-4'', Call_encode ''Hello, World!''])"
    by (simp add: count_tokens_def resolve_model_def demo_tiktoken_def char_encoding_def)
  show ?thesis
    using main_exit_status_by_count [OF r1 c1]
      main_exit_status_by_count [OF demo_missing_text demo_unknown_model_count]
    by (simp add: str_int_13)
qed

section \<open>What \<open>count_tokens\<close> returns\<close>

text \<open>
  C2, as the claim states it: whatever the tokenizer raises, \<open>count_tokens\<close> returns \<open>-1\<close>
  and nothing reaches its caller. The handler is \<^verbatim>\<open>except Exception\<close>, so this fails for a
  raised object that is no instance of \<^verbatim>\<open>Exception\<close> (the panic of a native extension,
  a keyboard interrupt): here the lookup raises one, \<open>count_tokens\<close> hands it to its caller,
  returns no count and writes no diagnostic.
\<close>

theorem count_tokens_propagates_counterexample:
  "count_tokens panicking_tiktoken ''Hello, World!'' ''gpt-4'' [] =
     (Inl (PyExc False ''PanicException''), [Call_encoding_for_model ''gpt-4''])"
  by (simp add: count_tokens_def count_tokens_except_def panicking_tiktoken_def)

text \<open>
  C2, amended. Let the tokenizer lookup, or the encoding after a successful lookup, raise
  \<open>e\<close>. If \<open>e\<close> is an instance of \<^verbatim>\<open>Exception\<close>, \<open>count_tokens\<close> catches it, returns
  \<open>-1\<close> and writes one diagnostic line, \<^verbatim>\<open>Error: \<close> followed by the exception's text, to
  the error stream. If it is not, \<open>e\<close> goes on to the caller and nothing is written.
\<close>

theorem count_tokens_catches_Exception:
  assumes "tk model = Inl e \<or> (\<exists>enc. tk model = Inr enc \<and> enc text = Inl e)"
  shows "(is_Exception e \<longrightarrow>
            fst (count_tokens tk text model tr) = Inr (- 1) \<and>
            stderr_of (snd (count_tokens tk text model tr)) =
              stderr_of tr @ [Stderr (print_line (''Error: '' @ message e))]) \<and>
         (\<not> is_Exception e \<longrightarrow>
            fst (count_tokens tk text model tr) = Inl e \<and>
            stderr_of (snd (count_tokens tk text model tr)) = stderr_of tr)"
  using assms
  by (auto simp add: count_tokens_def count_tokens_except_def stderr_of_def Let_def)

theorem count_tokens_catches_Exception_witness:
  "fst (count_tokens demo_tiktoken ''Hello, World!'' ''not-a-real-model'' []) = Inr (- 1) \<and>
   stderr_of (snd (count_tokens demo_tiktoken ''Hello, World!'' ''not-a-real-model'' [])) =
     [Stderr (print_line ''Error: Could not automatically map model to a tokeniser'')] \<and>
   fst (count_tokens panicking_tiktoken ''Hello, World!'' ''gpt-4'' []) =
     Inl (PyExc False ''PanicException'') \<and>
   stderr_of (snd (count_tokens panicking_tiktoken ''Hello, World!'' ''gpt-4'' [])) = []"
proof -
  have h: "demo_tiktoken ''not-a-real-model'' =
             Inl (PyExc True ''Could not automatically map model to a tokeniser'')"
    by (simp add: demo_tiktoken_def)
  have p: "panicking_tiktoken ''gpt-4'' = Inl (PyExc False ''PanicException'')"
    by (simp add: panicking_tiktoken_def)
  show ?thesis
    using count_tokens_catches_Exception [of demo_tiktoken "''not-a-real-model''" _
        "''Hello, World!''" "[]", OF disjI1, OF h]
      count_tokens_catches_Exception [of panicking_tiktoken "''gpt-4''" _
        "''Hello, World!''" "[]", OF disjI1, OF p]
    by (simp add: stderr_of_def)
qed

text \<open>
  C3. When the lookup and the encoding succeed, \<open>count_tokens\<close> returns the length of the
  token sequence the model's encoder gives for the text. Whenever it returns a value at
  all, that value is \<open>-1\<close> or such a length, which is not negative.
\<close>

theorem count_tokens_length_or_sentinel:
  "(tk model = Inr enc \<and> enc text = Inr tokens \<longrightarrow>
      fst (count_tokens tk text model tr) = Inr (int (length tokens))) \<and>
   (fst (count_tokens tk text model tr) = Inr v \<longrightarrow>
      v = - 1 \<or>
      (0 \<le> v \<and> (\<exists>enc tokens. tk model = Inr enc \<and> enc text = Inr tokens \<and>
                     v = int (length tokens))))"
  by (auto simp add: count_tokens_def count_tokens_except_def Let_def
      split: sum.splits if_splits)

theorem count_tokens_length_or_sentinel_witness:
  "fst (count_tokens demo_tiktoken ''Hello, World!'' ''gpt-4'' []) = Inr 13 \<and>
   13 = int (length (map (\<lambda>c. int (of_char c)) ''Hello, World!'')) \<and>
   fst (count_tokens demo_tiktoken ''Hello, World!'' ''not-a-real-model'' []) = Inr (- 1)"
proof -
  have h: "demo_tiktoken ''gpt-4'' = Inr char_encoding \<and>
           char_encoding ''Hello, World!'' = Inr (map (\<lambda>c. int (of_char c)) ''Hello, World!'')"
    by (simp add: demo_tiktoken_def char_encoding_def)
  have "fst (count_tokens demo_tiktoken ''Hello, World!'' ''not-a-real-model'' []) = Inr (- 1)"
    by (simp add: count_tokens_def count_tokens_except_def demo_tiktoken_def)
  then show ?thesis
    using count_tokens_length_or_sentinel [of demo_tiktoken "''gpt-4''" char_encoding
        "''Hello, World!''" "map (\<lambda>c. int (of_char c)) ''Hello, World!''" "[]" 13] h
    by simp
qed

section \<open>The command line of the token counter: the input text\<close>

text \<open>
  C4. With exactly one argument: when the argument is an existing file and reading it as
  UTF-8 gives \<open>contents\<close>, the text that is counted is \<open>contents\<close>; when the argument is
  not an existing file, the text that is counted is the argument itself, and the run opens
  no file. The model is the default one in both cases.
\<close>

theorem one_argument_text:
  "(isfile fs text_input \<and> read_utf8 fs text_input = Inr contents \<longrightarrow>
      resolve_text fs [script, text_input] [] =
        (Inr contents, [Call_isfile text_input, Call_open text_input]) \<and>
      main tk fs [script, text_input] =
        count_and_report tk contents ''gpt-4'' [Call_isfile text_input, Call_open text_input]) \<and>
   (\<not> isfile fs text_input \<longrightarrow>
      resolve_text fs [script, text_input] [] = (Inr text_input, [Call_isfile text_input]) \<and>
      main tk fs [script, text_input] =
        count_and_report tk text_input ''gpt-4'' [Call_isfile text_input] \<and>
      file_reads (snd (main tk fs [script, text_input])) = [])"
proof -
  have a: "file_reads (snd (count_and_report tk text_input ''gpt-4'' [Call_isfile text_input])) = []"
    using count_and_report_file_reads [of tk text_input "''gpt-4''" "[Call_isfile text_input]"]
    by (simp add: file_reads_def)
  show ?thesis
    using a by (simp add: main_def resolve_text_def resolve_model_def Let_def)
qed

theorem one_argument_text_witness:
  "main demo_tiktoken demo_fs [''test_tiktoken.py'', ''notes.txt''] =
     (Exit 0, [Call_isfile ''notes.txt'', Call_open ''notes.txt'',
               Call_encoding_for_model ''gpt-4'', Call_encode ''hello'',
               Stdout (print_line ''5'')]) \<and>
   resolve_text demo_fs [''test_tiktoken.py'', ''missing.txt''] [] =
     (Inr ''missing.txt'', [Call_isfile ''missing.txt'']) \<and>
   file_reads (snd (main demo_tiktoken demo_fs [''test_tiktoken.py'', ''missing.txt''])) = []"
proof -
  have f: "isfile demo_fs ''notes.txt'' \<and> read_utf8 demo_fs ''notes.txt'' = Inr ''hello''"
    by (simp add: isfile_def read_utf8_def demo_fs_def)
  have n: "\<not> isfile demo_fs ''missing.txt''"
    by (simp add: isfile_def demo_fs_def)
  have c: "count_and_report demo_tiktoken ''hello'' ''gpt-4''
             [Call_isfile ''notes.txt'', Call_open ''notes.txt''] =
           (Exit 0, [Call_isfile ''notes.txt'', Call_open ''notes.txt'',
               Call_encoding_for_model ''gpt-4'', Call_encode ''hello'',
               Stdout (print_line ''5'')])"
    by (simp add: count_and_report_def count_tokens_def report_def demo_tiktoken_def
        char_encoding_def str_int_5)
  note a = one_argument_text [of demo_fs "''notes.txt''" "''hello''" "''test_tiktoken.py''"
      demo_tiktoken]
  note b = one_argument_text [of demo_fs "''missing.txt''" "''hello''" "''test_tiktoken.py''"
      demo_tiktoken]
  from a f have m: "main demo_tiktoken demo_fs [''test_tiktoken.py'', ''notes.txt''] =
      count_and_report demo_tiktoken ''hello'' ''gpt-4''
        [Call_isfile ''notes.txt'', Call_open ''notes.txt'']"
    by blast
  from b n have r: "resolve_text demo_fs [''test_tiktoken.py'', ''missing.txt''] [] =
      (Inr ''missing.txt'', [Call_isfile ''missing.txt''])"
    by blast
  from b n have o: "file_reads (snd (main demo_tiktoken demo_fs
      [''test_tiktoken.py'', ''missing.txt''])) = []"
    by blast
  show ?thesis
    using m c r o by simp
qed

text \<open>
  C5. When the first argument is an existing file and reading it fails, that is, raises an
  exception of class \<^verbatim>\<open>Exception\<close> as every permission, decoding and I/O error is, the
  script writes one diagnostic line to the error stream and exits with status 1 at once:
  the tokenizer is never called and nothing is written to standard output.
\<close>

theorem file_read_failure_exits_1:
  assumes "length argv > 1" and "isfile fs (argv ! 1)"
    and "read_utf8 fs (argv ! 1) = Inl e" and "is_Exception e"
  shows "main tk fs argv =
           (Exit 1, [Call_isfile (argv ! 1), Call_open (argv ! 1),
              Stderr (print_line (''Error reading file: '' @ message e))]) \<and>
         tokenizer_calls (snd (main tk fs argv)) = [] \<and>
         stdout_of (snd (main tk fs argv)) = [] \<and>
         stderr_of (snd (main tk fs argv)) =
           [Stderr (print_line (''Error reading file: '' @ message e))]"
proof -
  have "main tk fs argv =
           (Exit 1, [Call_isfile (argv ! 1), Call_open (argv ! 1),
              Stderr (print_line (''Error reading file: '' @ message e))])"
    using resolve_text_read_failure [OF assms, of "[]"] by (simp add: main_def)
  then show ?thesis
    by (simp add: tokenizer_calls_def stdout_of_def stderr_of_def)
qed

theorem file_read_failure_exits_1_witness:
  "main demo_tiktoken demo_fs [''test_tiktoken.py'', ''secret.txt''] =
     (Exit 1, [Call_isfile ''secret.txt'', Call_open ''secret.txt'',
        Stderr (print_line ''Error reading file: [Errno 13] Permission denied'')]) \<and>
   tokenizer_calls (snd (main demo_tiktoken demo_fs [''test_tiktoken.py'', ''secret.txt''])) = [] \<and>
   stdout_of (snd (main demo_tiktoken demo_fs [''test_tiktoken.py'', ''secret.txt''])) = []"
proof -
  have l: "length [''test_tiktoken.py'', ''secret.txt''] > 1"
    by simp
  have f: "isfile demo_fs ([''test_tiktoken.py'', ''secret.txt''] ! 1)"
    by (simp add: isfile_def demo_fs_def)
  have r: "read_utf8 demo_fs ([''test_tiktoken.py'', ''secret.txt''] ! 1) =
             Inl (PyExc True ''[Errno 13] Permission denied'')"
    by (simp add: read_utf8_def demo_fs_def)
  have e: "is_Exception (PyExc True ''[Errno 13] Permission denied'')"
    by simp
  show ?thesis
    using file_read_failure_exits_1 [OF l f r e, of demo_tiktoken]
    by (simp add: tokenizer_calls_def stdout_of_def)
qed

text \<open>
  C6, as the claim states it: an argument that is a directory makes the script exit with
  status 1 and print nothing. A directory is not a file for \<^verbatim>\<open>os.path.isfile\<close>, so the
  script takes its path as the text: with \<^verbatim>\<open>/tmp\<close> a directory, the run counts the four
  characters of the path, prints the count and exits with status 0.
\<close>

theorem directory_argument_counterexample:
  "demo_fs ''/tmp'' = Some Directory \<and>
   main demo_tiktoken demo_fs [''test_tiktoken.py'', ''/tmp''] =
     (Exit 0, [Call_isfile ''/tmp'', Call_encoding_for_model ''gpt-4'', Call_encode ''/tmp'',
               Stdout (print_line ''4'')])"
  by (simp add: main_def resolve_text_def resolve_model_def isfile_def demo_fs_def Let_def
      count_and_report_def count_tokens_def report_def demo_tiktoken_def char_encoding_def
      str_int_4)

text \<open>
  C6, amended. When the first argument is an existing regular file whose read raises an
  exception of class \<^verbatim>\<open>Exception\<close> (permission denied, invalid UTF-8), the script exits
  with status 1 and prints nothing to standard output. When it is a directory, the script
  reads no file: the path itself is the text that is counted, and the count decides the
  exit status.
\<close>

theorem unreadable_file_argument:
  assumes "length argv > 1"
  shows "(isfile fs (argv ! 1) \<and> read_utf8 fs (argv ! 1) = Inl e \<and> is_Exception e \<longrightarrow>
            fst (main tk fs argv) = Exit 1 \<and> stdout_of (snd (main tk fs argv)) = []) \<and>
         (fs (argv ! 1) = Some Directory \<longrightarrow>
            main tk fs argv =
              count_and_report tk (argv ! 1) (resolve_model argv) [Call_isfile (argv ! 1)])"
proof -
  have d: "fs (argv ! 1) = Some Directory \<Longrightarrow> \<not> isfile fs (argv ! 1)"
    by (simp add: isfile_def)
  have a: "isfile fs (argv ! 1) \<Longrightarrow> read_utf8 fs (argv ! 1) = Inl e \<Longrightarrow> is_Exception e \<Longrightarrow>
             fst (main tk fs argv) = Exit 1 \<and> stdout_of (snd (main tk fs argv)) = []"
    using resolve_text_read_failure [OF assms, of fs e "[]"]
    by (simp add: main_def stdout_of_def)
  have b: "fs (argv ! 1) = Some Directory \<Longrightarrow>
             main tk fs argv =
               count_and_report tk (argv ! 1) (resolve_model argv) [Call_isfile (argv ! 1)]"
    using resolve_text_not_file [OF assms, of fs "[]"] d by (simp add: main_def)
  show ?thesis
    using a b by blast
qed

theorem unreadable_file_argument_witness:
  "fst (main demo_tiktoken demo_fs [''test_tiktoken.py'', ''secret.txt'']) = Exit 1 \<and>
   stdout_of (snd (main demo_tiktoken demo_fs [''test_tiktoken.py'', ''secret.txt''])) = [] \<and>
   main demo_tiktoken demo_fs [''test_tiktoken.py'', ''/tmp''] =
     count_and_report demo_tiktoken ''/tmp'' ''gpt-4'' [Call_isfile ''/tmp'']"
proof -
  have l: "length [''test_tiktoken.py'', ''secret.txt''] > 1"
    by simp
  have l': "length [''test_tiktoken.py'', ''/tmp''] > 1"
    by simp
  have f: "isfile demo_fs ''secret.txt'' \<and>
           read_utf8 demo_fs ''secret.txt'' = Inl (PyExc True ''[Errno 13] Permission denied'')"
    by (simp add: isfile_def read_utf8_def demo_fs_def)
  have d: "demo_fs ''/tmp'' = Some Directory"
    by (simp add: demo_fs_def)
  show ?thesis
    using unreadable_file_argument [OF l, of demo_fs "PyExc True ''[Errno 13] Permission denied''"
        demo_tiktoken]
      unreadable_file_argument [OF l', of demo_fs "PyExc True ''[Errno 13] Permission denied''"
        demo_tiktoken] f d
    by (simp add: resolve_model_def)
qed

section \<open>The command line of the token counter: defaults and arguments\<close>

text \<open>
  C7. With no argument the script calls \<open>count_tokens\<close> on the text \<^verbatim>\<open>Hello, World!\<close> and
  the model \<^verbatim>\<open>gpt-4\<close>. A second argument is the model that \<open>count_tokens\<close> is called with,
  and the text is resolved from the first argument exactly as without it.
\<close>

theorem defaults_and_model_override:
  "resolve_text fs [script] [] = (Inr ''Hello, World!'', []) \<and>
   resolve_model [script] = ''gpt-4'' \<and>
   main tk fs [script] =
     (case count_tokens tk ''Hello, World!'' ''gpt-4'' [] of
        (Inl e, tr') \<Rightarrow> (Uncaught e, tr')
      | (Inr token_count, tr') \<Rightarrow> report token_count tr') \<and>
   resolve_model (script # text_input # model # more) = model \<and>
   resolve_text fs (script # text_input # model # more) tr =
     resolve_text fs [script, text_input] tr \<and>
   main tk fs (script # text_input # model # more) =
     (case resolve_text fs [script, text_input] [] of
        (Inl ended, tr1) \<Rightarrow> (ended, tr1)
      | (Inr text, tr1) \<Rightarrow>
          (case count_tokens tk text model tr1 of
             (Inl e, tr') \<Rightarrow> (Uncaught e, tr')
           | (Inr token_count, tr') \<Rightarrow> report token_count tr'))"
proof -
  have rm: "resolve_model (script # text_input # model # more) = model"
    by (simp add: resolve_model_def)
  have rt: "resolve_text fs (script # text_input # model # more) tr0 =
              resolve_text fs [script, text_input] tr0" for tr0
    by (simp add: resolve_text_def)
  have m0: "main tk fs [script] =
     (case count_tokens tk ''Hello, World!'' ''gpt-4'' [] of
        (Inl e, tr') \<Rightarrow> (Uncaught e, tr')
      | (Inr token_count, tr') \<Rightarrow> report token_count tr')"
    by (simp add: main_def count_and_report_def resolve_text_def resolve_model_def)
  have m2: "main tk fs (script # text_input # model # more) =
     (case resolve_text fs [script, text_input] [] of
        (Inl ended, tr1) \<Rightarrow> (ended, tr1)
      | (Inr text, tr1) \<Rightarrow>
          (case count_tokens tk text model tr1 of
             (Inl e, tr') \<Rightarrow> (Uncaught e, tr')
           | (Inr token_count, tr') \<Rightarrow> report token_count tr'))"
    unfolding main_def count_and_report_def rm rt by (rule refl)
  show ?thesis
    using rm rt [of tr] m0 m2 by (simp add: resolve_text_def resolve_model_def)
qed

text \<open>
  C9. The success branch tests \<open>token_count \<ge> 0\<close>: a count of zero is printed as \<^verbatim>\<open>0\<close>
  and the script exits with status 0, and every negative count, not only \<open>-1\<close>, gives
  exit status 1 with nothing printed. The same holds for the whole script, whenever
  \<open>count_tokens\<close> returns such a count.
\<close>

theorem zero_count_is_success:
  "report 0 tr = (Exit 0, tr @ [Stdout (print_line ''0'')]) \<and>
   (n < 0 \<longrightarrow> report n tr = (Exit 1, tr)) \<and>
   (resolve_text fs argv [] = (Inr text, tr0) \<and>
    count_tokens tk text (resolve_model argv) tr0 = (Inr n, tr1) \<longrightarrow>
      (n = 0 \<longrightarrow> main tk fs argv = (Exit 0, tr1 @ [Stdout (print_line ''0'')])) \<and>
      (n < 0 \<longrightarrow> main tk fs argv = (Exit 1, tr1)))"
  by (simp add: main_def count_and_report_def report_def str_int_0)

theorem zero_count_is_success_witness:
  "report (- 5) [] = (Exit 1, []) \<and>
   main demo_tiktoken demo_fs [''test_tiktoken.py'', ''''] =
     (Exit 0, [Call_isfile '''', Call_encoding_for_model ''gpt-4'', Call_encode '''',
               Stdout (print_line ''0'')]) \<and>
   main demo_tiktoken demo_fs [''test_tiktoken.py'', ''missing.txt'', ''not-a-real-model''] =
     (Exit 1, [Call_isfile ''missing.txt'', Call_encoding_for_model ''not-a-real-model'',
               Stderr (print_line ''Error: Could not automatically map model to a tokeniser'')])"
proof -
  have r1: "resolve_text demo_fs [''test_tiktoken.py'', ''''] [] = (Inr '''', [Call_isfile ''''])"
    by (simp add: resolve_text_def isfile_def demo_fs_def Let_def)
  have c1: "count_tokens demo_tiktoken '''' (resolve_model [''test_tiktoken.py'', ''''])
              [Call_isfile ''''] =
            (Inr 0, [Call_isfile '''', Call_encoding_for_model ''gpt-4'', Call_encode ''''])"
    by (simp add: count_tokens_def resolve_model_def demo_tiktoken_def char_encoding_def)
  note a = zero_count_is_success [of "[]" "0" demo_fs "[''test_tiktoken.py'', '''']" "''''"
      "[Call_isfile '''']" demo_tiktoken]
  note b = zero_count_is_success [of "[]" "- 1" demo_fs
      "[''test_tiktoken.py'', ''missing.txt'', ''not-a-real-model'']" "''missing.txt''"
      "[Call_isfile ''missing.txt'']" demo_tiktoken]
  note c = zero_count_is_success [of "[]" "- 5" demo_fs "[]" "''''" "[]" demo_tiktoken]
  show ?thesis
    using a b c r1 c1 demo_missing_text demo_unknown_model_count by simp
qed

text \<open>
  C10. Only the first two arguments are looked at: a run with more arguments ends as the
  run with the first two alone does, with the same trace. In general a run depends on the
  first three entries of \<^verbatim>\<open>sys.argv\<close> only.
\<close>

theorem extra_arguments_ignored:
  "main tk fs (script # text_input # model # more) = main tk fs [script, text_input, model] \<and>
   main tk fs argv = main tk fs (take 3 argv)"
proof -
  have t: "main tk fs (take 3 args) = main tk fs args" for args
    unfolding main_def resolve_text_take resolve_model_take by (rule refl)
  show ?thesis
    using t [of "script # text_input # model # more"] t [of argv] by simp
qed

section \<open>The greeting tool\<close>

text \<open>
  C8. Every call of \<open>hello\<close> returns the string \<^verbatim>\<open>Hello, world!\<close>: it raises nothing, and
  the trace after the call is the trace before it.
\<close>

theorem hello_returns_greeting:
  "hello tr = (Inr ''Hello, world!'', tr)"
  by (simp add: hello_def)

section \<open>Every run of the token counter\<close>

lemma count_tokens_cases:
  "(\<exists>n tr'. count_tokens tk text model tr = (Inr n, tr') \<and> - 1 \<le> n \<and> stdout_of tr' = stdout_of tr) \<or>
   (\<exists>e tr'. count_tokens tk text model tr = (Inl e, tr') \<and> \<not> is_Exception e \<and>
      stdout_of tr' = stdout_of tr)"
  by (auto simp add: count_tokens_def count_tokens_except_def stdout_of_def Let_def
      split: sum.splits)

text \<open>
  X1. A run ends with exit status 0 or 1, or with an uncaught raised object that is no
  instance of \<^verbatim>\<open>Exception\<close>: no exception of class \<^verbatim>\<open>Exception\<close> leaves the script.
\<close>

theorem main_ends_with_0_or_1:
  "fst (main tk fs argv) = Exit 0 \<or> fst (main tk fs argv) = Exit 1 \<or>
   (\<exists>e. fst (main tk fs argv) = Uncaught e \<and> \<not> is_Exception e)"
proof (cases "resolve_text fs argv []")
  case (Pair r tr)
  show ?thesis
  proof (cases r)
    case (Inl ended)
    with Pair have "ended = Exit 1 \<or> (\<exists>e. ended = Uncaught e \<and> \<not> is_Exception e)"
      by (auto simp add: resolve_text_def Let_def split: if_splits sum.splits)
    with Pair Inl show ?thesis
      by (auto simp add: main_def)
  next
    case (Inr input_text)
    with Pair have m: "main tk fs argv = count_and_report tk input_text (resolve_model argv) tr"
      by (simp add: main_def)
    show ?thesis
      using count_tokens_cases [of tk input_text "resolve_model argv" tr] m
      by (auto simp add: count_and_report_def report_def)
  qed
qed

text \<open>
  X2. A run writes at most one line to standard output, and it writes one exactly when
  it exits with status 0.
\<close>

theorem stdout_line_iff_exit_0:
  "(fst (main tk fs argv) = Exit 0) = (stdout_of (snd (main tk fs argv)) \<noteq> []) \<and>
   length (stdout_of (snd (main tk fs argv))) \<le> 1"
proof (cases "resolve_text fs argv []")
  case (Pair r tr)
  have s: "stdout_of tr = []"
    using resolve_text_stdout [of fs argv "[]"] Pair by (simp add: stdout_of_def)
  show ?thesis
  proof (cases r)
    case (Inl ended)
    with Pair have "ended \<noteq> Exit 0"
      by (auto simp add: resolve_text_def Let_def split: if_splits sum.splits)
    with Pair Inl s show ?thesis
      by (simp add: main_def)
  next
    case (Inr input_text)
    with Pair have m: "main tk fs argv = count_and_report tk input_text (resolve_model argv) tr"
      by (simp add: main_def)
    show ?thesis
      using count_tokens_cases [of tk input_text "resolve_model argv" tr] m s
      by (auto simp add: count_and_report_def report_def stdout_of_def split: if_splits)
  qed
qed

end
